theory Spec2Isabelle
  imports Complex_Main "HOL-Library.Word"
begin

section \<open>Pong: ball motion, paddle collision and the computer paddle\<close>

text \<open>
  A shallow embedding of \<^verbatim>\<open>src/pong/main.cpp\<close>: \<^verbatim>\<open>Score\<close>, \<^verbatim>\<open>Ball\<close> and
  \<^verbatim>\<open>Paddle\<close> with their per-frame operations.

  Conventions of the embedding.
  \<^item> A C++ \<^verbatim>\<open>float\<close> is a \<^typ>\<open>real\<close>: rounding is not modelled. A float division
    by zero gives no real number; the one division of the code whose divisor can be
    zero on a well-formed table is written out with \<open>fdiv\<close>, and the ball it leaves
    without a real position is marked. The other divisors are
    \<open>pi\<close>, a delta that has passed the epsilon test, the refresh rate and the paddle
    length; properties that depend on the last one assume it positive.
  \<^item> \<^verbatim>\<open>sf::Point\<close>, \<^verbatim>\<open>sf::Vector2f\<close> and \<^verbatim>\<open>sf::Force\<close> are pairs of reals.
  \<^item> Every sample drawn from a generator (\<^verbatim>\<open>m_rng\<close>) is an argument of the function
    that draws it: the coin toss as a \<^typ>\<open>bool\<close>, a uniform sample as a unit sample
    \<open>u\<close> in \<open>[0, 1)\<close> scaled to the requested range, a normal sample as a real.
  \<^item> Helpers of the SFML extension headers, which are not part of this repository,
    are arguments too: the screen refresh rate, \<^verbatim>\<open>sf::clampRadians\<close> and
    \<^verbatim>\<open>sf::makeOdd\<close>. \<^verbatim>\<open>sf::pi\<close> is \<^term>\<open>pi\<close>.
  \<^item> A shape (\<^verbatim>\<open>m_shape\<close>) is reduced to what the code reads and writes: its position
    and, for the paddle, its origin (\<^verbatim>\<open>getGlobalBounds ( ).top\<close> of an unrotated
    rectangle is position minus origin).
\<close>

subsection \<open>Points and numeric helpers\<close>

type_synonym Point = "real \<times> real"

definition vadd :: "Point \<Rightarrow> Point \<Rightarrow> Point" where
  "vadd a b = (fst a + fst b, snd a + snd b)"

definition vsub :: "Point \<Rightarrow> Point \<Rightarrow> Point" where
  "vsub a b = (fst a - fst b, snd a - snd b)"

definition vscale :: "real \<Rightarrow> Point \<Rightarrow> Point" where
  "vscale k a = (k * fst a, k * snd a)"

text \<open>\<^verbatim>\<open>FLT_EPSILON\<close> of the C header \<^verbatim>\<open>cfloat\<close>, the IEEE single precision value.\<close>

definition FLT_EPSILON :: real where
  "FLT_EPSILON = 1 / 2 ^ 23"

text \<open>\<^verbatim>\<open>pong::equal\<close> and \<^verbatim>\<open>pong::not_equal\<close>.\<close>

definition equal_f :: "real \<Rightarrow> real \<Rightarrow> bool" where
  "equal_f a b = (\<bar>b - a\<bar> < 4 * FLT_EPSILON)"

definition not_equal_f :: "real \<Rightarrow> real \<Rightarrow> bool" where
  "not_equal_f a b = (\<bar>b - a\<bar> \<ge> 4 * FLT_EPSILON)"

text \<open>\<^verbatim>\<open>std::clamp ( v, lo, hi )\<close>.\<close>

definition clamp_std :: "real \<Rightarrow> real \<Rightarrow> real \<Rightarrow> real" where
  "clamp_std v lo hi = (if v < lo then lo else if hi < v then hi else v)"

text \<open>
  A float quotient is a real number only when the divisor is not zero (otherwise it is
  NaN or an infinity); \<open>None\<close> stands for those.
\<close>

definition fdiv :: "real \<Rightarrow> real \<Rightarrow> real option" where
  "fdiv a b = (if b = 0 then None else Some (a / b))"

text \<open>\<^verbatim>\<open>UniDisf ( a, b ) ( m_rng )\<close>, from the unit sample \<open>u\<close>.\<close>

definition UniDisf :: "real \<Rightarrow> real \<Rightarrow> real \<Rightarrow> real" where
  "UniDisf a b u = a + (b - a) * u"

text \<open>The per-frame quantum \<^verbatim>\<open>inc\<close> of the three \<^verbatim>\<open>update\<close> functions.\<close>

definition inc :: "int \<Rightarrow> real" where
  "inc refresh = 1000000 / real_of_int refresh"

subsection \<open>Score\<close>

text \<open>The counters are \<^verbatim>\<open>sf::Int32\<close>: 32-bit words, read as two's complement.\<close>

record Score =
  m_left :: "32 word"
  m_right :: "32 word"

definition has_won :: "Score \<Rightarrow> bool" where
  "has_won s = (sint (m_left s) > 10 \<or> sint (m_right s) > 10)"

subsection \<open>Ball\<close>

text \<open>
  \<^verbatim>\<open>enum class Direction : sf::Int32\<close> is kept as its underlying integer, because the
  code produces directions by a cast from a float, \<^verbatim>\<open>( Direction ) ( m_angle / sf::pi )\<close>,
  which truncates toward zero and can yield values other than the two enumerators.
\<close>

type_synonym Direction = int

definition MovesToRight :: Direction where
  "MovesToRight = 0"

definition MovesToLeft :: Direction where
  "MovesToLeft = 1"

definition trunc_int :: "real \<Rightarrow> int" where
  "trunc_int r = (if 0 \<le> r then \<lfloor>r\<rfloor> else \<lceil>r\<rceil>)"

definition to_Direction :: "real \<Rightarrow> Direction" where
  "to_Direction angle = trunc_int (angle / pi)"

datatype Event = NoneE | HitWall | Missed

record Ball =
  m_shape :: Point
  m_angle :: real
  m_speed_increment :: real
  m_speed :: real
  m_min :: Point
  m_max :: Point
  m_direction :: Direction
  m_previous_position :: Point
  m_pause :: real

text \<open>
  The constructor \<^verbatim>\<open>Ball::Ball\<close>; \<open>u\<close> is the unit sample of its one draw. The points
  are default-constructed.
\<close>

definition Ball_ctor :: "int \<Rightarrow> real \<Rightarrow> Ball" where
  "Ball_ctor refresh u =
     (let angle = UniDisf (0.333 * pi) (0.666 * pi) u;
          speed_increment = 60 / real_of_int refresh
      in \<lparr> m_shape = (0, 0), m_angle = angle, m_speed_increment = speed_increment,
           m_speed = 10 * speed_increment, m_min = (0, 0), m_max = (0, 0),
           m_direction = to_Direction angle, m_previous_position = (0, 0),
           m_pause = 0 \<rparr>)"

text \<open>
  \<^verbatim>\<open>Ball::new_ball\<close>: the coin toss is drawn first, then one uniform sample. The
  function returns the ball and the rewritten \<^verbatim>\<open>position_\<close>.
\<close>

definition new_ball :: "bool \<Rightarrow> real \<Rightarrow> Ball \<Rightarrow> Ball \<times> Point" where
  "new_ball coin_toss u b =
     (let angle =
            (if m_direction b = MovesToLeft
             then (if coin_toss then UniDisf (1.22 * pi) (1.33 * pi) u
                   else UniDisf (1.66 * pi) (1.78 * pi) u)
             else (if coin_toss then UniDisf (0.66 * pi) (0.78 * pi) u
                   else UniDisf (0.22 * pi) (0.33 * pi) u));
          position =
            ((fst (m_max b) - fst (m_min b)) * 0.5 + fst (m_min b),
             (snd (m_max b) - snd (m_min b)) * (0.1 + of_bool coin_toss * 0.8) + snd (m_min b))
      in (b\<lparr> m_angle := angle, m_speed := 10 \<rparr>, position))"

definition Ball_pause :: "real \<Rightarrow> Ball \<Rightarrow> Ball" where
  "Ball_pause microseconds b = b\<lparr> m_pause := microseconds \<rparr>"

text \<open>
  \<^verbatim>\<open>Ball::update\<close>. Arguments: the refresh rate, \<^verbatim>\<open>sf::clampRadians\<close>, the samples a
  frame may draw (coin toss and unit sample of \<^verbatim>\<open>new_ball\<close>, the normal sample of the
  wall reflection), the ball and the score. The two \<^verbatim>\<open>if\<close> blocks are the two
  \<open>let\<close>-bound steps, in the order of the source.
\<close>

definition Ball_update ::
  "int \<Rightarrow> (real \<Rightarrow> real) \<Rightarrow> bool \<Rightarrow> real \<Rightarrow> real \<Rightarrow> Ball \<Rightarrow> Score \<Rightarrow> Event \<times> Ball \<times> Score" where
  "Ball_update refresh clampRadians coin_toss u noise b score =
     (if 0 < m_pause b then (NoneE, b\<lparr> m_pause := m_pause b - inc refresh \<rparr>, score)
      else
        let b0 = b\<lparr> m_pause := 0, m_previous_position := m_shape b \<rparr>;
            new_position =
              vadd (m_previous_position b0)
                   (vscale (m_speed b0) (sin (m_angle b0), cos (m_angle b0)));
            (event1, b1, new_position1, score1) =
              (if fst new_position < fst (m_min b0) \<or> fst new_position > fst (m_max b0)
               then
                 (let score' = score\<lparr> m_right := m_right score
                                          + of_bool (fst new_position < fst (m_min b0)) \<rparr>;
                      score'' = score'\<lparr> m_left := m_left score'
                                          + of_bool (fst new_position > fst (m_max b0)) \<rparr>;
                      (b', position') = new_ball coin_toss u b0
                  in (Missed, b', position', score''))
               else (NoneE, b0, new_position, score));
            (event2, b2, new_position2) =
              (if snd new_position1 < snd (m_min b1) \<or> snd new_position1 > snd (m_max b1)
               then
                 (let angle = clampRadians (pi - m_angle b1 + noise)
                  in (HitWall,
                      b1\<lparr> m_angle := angle, m_direction := to_Direction angle \<rparr>,
                      (fst new_position1,
                       if snd new_position1 < snd (m_min b1) then snd (m_min b1)
                       else snd (m_max b1))))
               else (event1, b1, new_position1))
        in (event2, b2\<lparr> m_shape := new_position2 \<rparr>, score1))"

subsection \<open>Paddle\<close>

text \<open>\<^verbatim>\<open>enum class Side\<close>, with the enumerators \<^verbatim>\<open>Left\<close> and \<^verbatim>\<open>Right\<close>.\<close>

datatype Side = Left_side | Right_side

record Paddle =
  m_paddle_length :: real
  m_paddle_detector_length :: real
  m_paddle_detector_offset :: Point
  m_paddle_sectors :: int
  m_shape_position :: Point
  m_shape_origin :: Point
  m_min_y :: real
  m_max_y :: real
  m_side :: Side
  m_paddle_pause :: real

definition Paddle_pause :: "real \<Rightarrow> Paddle \<Rightarrow> Paddle" where
  "Paddle_pause microseconds p = p\<lparr> m_paddle_pause := microseconds \<rparr>"

definition is_y_in_paddle :: "Paddle \<Rightarrow> real \<Rightarrow> real \<Rightarrow> bool" where
  "is_y_in_paddle p paddle_centre_y y =
     (y > paddle_centre_y - 0.4 * m_paddle_length p \<and> y < paddle_centre_y + 0.4 * m_paddle_length p)"

text \<open>
  \<^verbatim>\<open>Paddle::sector_hit\<close>. \<^verbatim>\<open>m_paddle_sectors / 2u\<close> is an unsigned 32-bit division (the
  signed count is converted first); the product and the difference are float
  operations, and the outer cast to float changes nothing.
\<close>

definition sector_hit :: "Paddle \<Rightarrow> Ball \<Rightarrow> real" where
  "sector_hit p b =
     clamp_std ((snd (m_shape b) - (snd (m_shape_position p) - snd (m_shape_origin p)))
                  / m_paddle_length p) 0 0.999
       * real_of_int (m_paddle_sectors p)
     - real_of_int ((m_paddle_sectors p mod 2 ^ 32) div 2)"

text \<open>\<^verbatim>\<open>Paddle::return_ball\<close>; \<open>noise\<close> is the normal sample drawn from the ball's generator.\<close>

definition return_ball :: "Paddle \<Rightarrow> Ball \<Rightarrow> Point \<Rightarrow> real \<Rightarrow> real \<Rightarrow> Ball" where
  "return_ball p b intersection ratio noise =
     (let epsilon = 0.01 * pi;
          zero_pi_or_one_pi = of_bool (MovesToRight = m_direction b) * pi;
          angle0 = pi / 2 + zero_pi_or_one_pi;
          angle1 = angle0 + 0.075 * (if Right_side = m_side p then sector_hit p b else - sector_hit p b);
          angle2 = angle1 + noise;
          b1 = b\<lparr> m_angle := clamp_std angle2 (zero_pi_or_one_pi + epsilon)
                                          (pi + zero_pi_or_one_pi - epsilon) \<rparr>;
          b2 = b1\<lparr> m_direction := to_Direction (m_angle b1) \<rparr>;
          b3 = b2\<lparr> m_speed := m_speed b2 + m_speed_increment b2 \<rparr>
      in b3\<lparr> m_shape := vadd intersection
                              (vscale (m_speed b3 * ratio) (sin (m_angle b3), cos (m_angle b3))) \<rparr>)"

text \<open>
  \<^verbatim>\<open>Paddle::return_ball\<close> when \<^verbatim>\<open>ratio_\<close> is NaN. The angle, the direction and the speed
  are written as above; the position written is NaN, which a \<open>Point\<close> cannot hold, so
  the record keeps the old position in \<open>m_shape\<close> and the caller marks it as void.
\<close>

definition return_ball_unplaced :: "Paddle \<Rightarrow> Ball \<Rightarrow> real \<Rightarrow> Ball" where
  "return_ball_unplaced p b noise =
     (let epsilon = 0.01 * pi;
          zero_pi_or_one_pi = of_bool (MovesToRight = m_direction b) * pi;
          angle0 = pi / 2 + zero_pi_or_one_pi;
          angle1 = angle0 + 0.075 * (if Right_side = m_side p then sector_hit p b else - sector_hit p b);
          angle2 = angle1 + noise;
          b1 = b\<lparr> m_angle := clamp_std angle2 (zero_pi_or_one_pi + epsilon)
                                          (pi + zero_pi_or_one_pi - epsilon) \<rparr>;
          b2 = b1\<lparr> m_direction := to_Direction (m_angle b1) \<rparr>
      in b2\<lparr> m_speed := m_speed b2 + m_speed_increment b2 \<rparr>)"

text \<open>
  The ball as a call of \<^verbatim>\<open>Paddle::update\<close> leaves it. \<open>Placed b\<close> is the ball \<open>b\<close>.
  \<open>Unplaced b\<close> is a ball whose position is NaN and whose other fields are those of
  \<open>b\<close>. \<open>the_ball\<close> gives the record in both cases.
\<close>

datatype Returned = Placed Ball | Unplaced Ball

fun the_ball :: "Returned \<Rightarrow> Ball" where
  "the_ball (Placed b) = b"
| "the_ball (Unplaced b) = b"

text \<open>
  \<^verbatim>\<open>Paddle::update\<close>. The result is the returned flag, the paddle (its shape is moved
  first) and the ball. The vertical branch divides by the horizontal delta without a
  test; when the delta is zero the quotient, the ratio and the new position are NaN,
  and the ball is returned \<open>Unplaced\<close>, with its angle, direction and speed written.
  The two divisions of the other branch are guarded by \<open>not_equal_f\<close>.
\<close>

definition Paddle_update ::
  "Paddle \<Rightarrow> Ball \<Rightarrow> Point \<Rightarrow> Point \<Rightarrow> real \<Rightarrow> bool \<times> Paddle \<times> Returned" where
  "Paddle_update p ball ball_position paddle_position0 noise =
     (let p' = p\<lparr> m_shape_position := paddle_position0 \<rparr>;
          paddle_position = vadd paddle_position0 (m_paddle_detector_offset p')
      in
        if (if Left_side = m_side p'
            then MovesToRight = m_direction ball \<or>
                 (fst ball_position > fst paddle_position \<or>
                  fst (m_previous_position ball) < fst paddle_position)
            else MovesToLeft = m_direction ball \<or>
                 (fst ball_position < fst paddle_position \<or>
                  fst (m_previous_position ball) > fst paddle_position))
        then (False, p', Placed ball)
        else
          let intersection = vsub ball_position (m_previous_position ball)
          in
            if not_equal_f 0 (fst intersection)
            then
              (let s = snd intersection / fst intersection;
                   intersection_y = s * (fst paddle_position - fst ball_position) + snd ball_position
               in if intersection_y \<ge> snd paddle_position \<and>
                     intersection_y \<le> snd paddle_position + m_paddle_detector_length p'
                  then (True, p',
                        Placed (return_ball p' ball (fst paddle_position, intersection_y)
                                ((fst ball_position - fst (m_previous_position ball)) /
                                 (fst ball_position - fst (m_previous_position ball))) noise))
                  else (False, p', Placed ball))
            else
              (let intersection' =
                     (if snd (m_previous_position ball) > snd paddle_position
                      then (fst paddle_position, snd paddle_position + m_paddle_detector_length p')
                      else paddle_position)
               in (True, p',
                   case fdiv (fst intersection' - fst (m_previous_position ball))
                             (fst ball_position - fst (m_previous_position ball)) of
                     Some q \<Rightarrow> Placed (return_ball p' ball intersection' (1 - q) noise)
                   | None \<Rightarrow> Unplaced (return_ball_unplaced p' ball noise))))"

text \<open>
  \<^verbatim>\<open>Paddle::update_computer\<close>. Arguments: the refresh rate, the two-argument
  \<^verbatim>\<open>sf::makeOdd\<close>, the unit sample of the jitter, the normal sample of a possible
  \<^verbatim>\<open>return_ball\<close>, the paddle and the ball.
\<close>

definition update_computer ::
  "int \<Rightarrow> (real \<Rightarrow> bool \<Rightarrow> real) \<Rightarrow> real \<Rightarrow> real \<Rightarrow> Paddle \<Rightarrow> Ball \<Rightarrow> bool \<times> Paddle \<times> Returned" where
  "update_computer refresh makeOdd u noise p ball =
     (if 0 < m_paddle_pause p
      then (False, p\<lparr> m_paddle_pause := m_paddle_pause p - inc refresh \<rparr>, Placed ball)
      else
        let p0 = p\<lparr> m_paddle_pause := 0 \<rparr>;
            ball_position = m_shape ball;
            paddle_position = m_shape_position p0;
            paddle_position' =
              (if \<not> is_y_in_paddle p0 (snd paddle_position) (snd ball_position)
               then
                 (if (if (if Left_side = m_side p0 then MovesToLeft = m_direction ball
                          else MovesToRight = m_direction ball)
                      then snd ball_position
                      else (m_min_y p0 + m_max_y p0) / 2) < snd paddle_position
                  then
                    (let new_paddle_position_y =
                           makeOdd (snd paddle_position - 9 + 9 * UniDisf (- 7 / 15) (7 / 15) u) False
                     in if new_paddle_position_y > m_min_y p0
                        then (if snd ball_position < new_paddle_position_y
                              then (fst paddle_position, new_paddle_position_y)
                              else paddle_position)
                        else paddle_position)
                  else
                    (let new_paddle_position_y =
                           makeOdd (snd paddle_position + 9 + 9 * UniDisf (- 7 / 15) (7 / 15) u) True
                     in if new_paddle_position_y < m_max_y p0
                        then (if snd ball_position > new_paddle_position_y
                              then (fst paddle_position, new_paddle_position_y)
                              else paddle_position)
                        else paddle_position))
               else paddle_position)
        in Paddle_update p0 ball ball_position paddle_position' noise)"

subsection \<open>Notions used by the properties\<close>

text \<open>
  The consistency of the derived direction with the angle: the angle is in \<open>[0, 2 pi)\<close>
  and the direction is the cast of \<open>angle / pi\<close>.
\<close>

definition dir_inv :: "Ball \<Rightarrow> bool" where
  "dir_inv b =
     (0 \<le> m_angle b \<and> m_angle b < 2 * pi \<and> m_direction b = to_Direction (m_angle b))"

text \<open>
  The candidate position of a frame: the first value of \<^verbatim>\<open>new_position\<close> in
  \<^verbatim>\<open>Ball::update\<close>, computed from the position the frame starts with.
\<close>

definition candidate :: "Ball \<Rightarrow> Point" where
  "candidate b = vadd (m_shape b) (vscale (m_speed b) (sin (m_angle b), cos (m_angle b)))"

text \<open>The reseeded position of \<^verbatim>\<open>new_ball\<close>, which depends on the bounds and the coin only.\<close>

definition reseed_position :: "bool \<Rightarrow> Ball \<Rightarrow> Point" where
  "reseed_position coin_toss b =
     ((fst (m_max b) - fst (m_min b)) * 0.5 + fst (m_min b),
      (snd (m_max b) - snd (m_min b)) * (0.1 + of_bool coin_toss * 0.8) + snd (m_min b))"

text \<open>
  The cheap rejection at the head of \<^verbatim>\<open>Paddle::update\<close>, as a predicate of the paddle,
  the ball, the ball position and the x-coordinate of the detector.
\<close>

definition cheaply_rejected :: "Paddle \<Rightarrow> Ball \<Rightarrow> Point \<Rightarrow> real \<Rightarrow> bool" where
  "cheaply_rejected p ball ball_position detector_x =
     (if Left_side = m_side p
      then MovesToRight = m_direction ball \<or>
           (fst ball_position > detector_x \<or> fst (m_previous_position ball) < detector_x)
      else MovesToLeft = m_direction ball \<or>
           (fst ball_position < detector_x \<or> fst (m_previous_position ball) > detector_x))"

text \<open>
  The reference height of the computer paddle: the ball's height when the ball moves
  toward the paddle's side, the middle of the travel range otherwise.
\<close>

definition reference_y :: "Paddle \<Rightarrow> Ball \<Rightarrow> real" where
  "reference_y p ball =
     (if (if Left_side = m_side p then MovesToLeft = m_direction ball
          else MovesToRight = m_direction ball)
      then snd (m_shape ball)
      else (m_min_y p + m_max_y p) / 2)"

text \<open>
  Two quantities in the words of the specification, to compare the code with.
  The fraction of the travel segment from \<open>previous\<close> to \<open>current\<close> that lies beyond
  its crossing of the vertical line at \<open>x\<close>; and the sector of a height \<open>y\<close> on the
  paddle: relative position along the paddle, clamped, scaled by the sector count and
  shifted by half the count, so that the centre of the paddle is sector zero.
\<close>

definition spec_unconsumed_fraction :: "Point \<Rightarrow> Point \<Rightarrow> real \<Rightarrow> real" where
  "spec_unconsumed_fraction previous current x =
     (fst current - x) / (fst current - fst previous)"

definition spec_sector :: "Paddle \<Rightarrow> real \<Rightarrow> real" where
  "spec_sector p y =
     clamp_std ((y - (snd (m_shape_position p) - snd (m_shape_origin p))) / m_paddle_length p)
               0 0.999
       * real_of_int (m_paddle_sectors p)
     - real_of_int (m_paddle_sectors p) / 2"

subsection \<open>Concrete frames\<close>

text \<open>
  Instances of the two external helpers, for evaluating frames: an angle wrapped into
  \<open>[0, 2 pi)\<close>, and rounding to a neighbouring odd integer.
\<close>

definition clampRadians_wrap :: "real \<Rightarrow> real" where
  "clampRadians_wrap a = a - 2 * pi * real_of_int \<lfloor>a / (2 * pi)\<rfloor>"

definition makeOdd_round :: "real \<Rightarrow> bool \<Rightarrow> real" where
  "makeOdd_round v up =
     (if odd \<lfloor>v\<rfloor> then real_of_int \<lfloor>v\<rfloor>
      else if up then real_of_int \<lfloor>v\<rfloor> + 1 else real_of_int \<lfloor>v\<rfloor> - 1)"

text \<open>
  The table of \<^verbatim>\<open>App::App\<close>: the box \<open>(95, 95, 1095, 795)\<close>, a ball of size 15, paddles
  of length 67 with 15 sectors; the computer paddle is the left one. The ball below
  moves straight up and is about to reach the top wall.
\<close>

definition score0 :: Score where
  "score0 = \<lparr> m_left = 0, m_right = 0 \<rparr>"

definition table_ball :: Ball where
  "table_ball =
     \<lparr> m_shape = (500, 110), m_angle = pi, m_speed_increment = 1, m_speed = 10,
       m_min = (102.5, 102.5), m_max = (1087.5, 787.5), m_direction = MovesToLeft,
       m_previous_position = (500, 120), m_pause = 0 \<rparr>"

definition left_paddle :: Paddle where
  "left_paddle =
     \<lparr> m_paddle_length = 67, m_paddle_detector_length = 82,
       m_paddle_detector_offset = (13, - 41), m_paddle_sectors = 15,
       m_shape_position = (155, 450), m_shape_origin = (5.5, 33.5),
       m_min_y = 147.5, m_max_y = 742.5, m_side = Left_side, m_paddle_pause = 0 \<rparr>"

text \<open>
  Balls derived from it: one leaving the table on the right; one leaving through the
  bottom right corner, so that its candidate position violates a horizontal and a
  vertical bound at once; and one whose pause countdown has passed zero (at 75 Hz the
  quantum is 40000/3, and 500000 minus 38 quanta is -20000/3).
\<close>

definition miss_ball :: Ball where
  "miss_ball = table_ball\<lparr> m_shape := (1085, 400), m_angle := pi / 2,
                             m_direction := MovesToRight \<rparr>"

definition corner_ball :: Ball where
  "corner_ball = table_ball\<lparr> m_shape := (1085, 785), m_angle := pi / 6,
                               m_direction := MovesToRight \<rparr>"

definition late_ball :: Ball where
  "late_ball = table_ball\<lparr> m_pause := - 20000 / 3 \<rparr>"

text \<open>
  A ball constructed on a 120 Hz screen (its one draw gives the angle \<open>pi / 2\<close>) and
  placed on the table, about to leave it on the right.
\<close>

definition fast_screen_ball :: Ball where
  "fast_screen_ball =
     (Ball_ctor 120 (167 / 333))\<lparr> m_shape := (1085, 400), m_min := (102.5, 102.5),
                                    m_max := (1087.5, 787.5) \<rparr>"

text \<open>
  Balls in front of the left paddle, whose detector is the vertical segment at
  \<open>x = 168\<close> from height 409 to height 491. Two travel straight up along the
  detector's line, one far above the detector and one inside its range; one
  crosses the line level, at the height of the paddle's centre; one crosses it on a
  slant, at the same height, and ends 20 below it.
\<close>

definition vertical_ball :: Ball where
  "vertical_ball = table_ball\<lparr> m_shape := (168, 100), m_previous_position := (168, 110) \<rparr>"

definition colinear_ball :: Ball where
  "colinear_ball = table_ball\<lparr> m_shape := (168, 440), m_previous_position := (168, 450) \<rparr>"

definition level_ball :: Ball where
  "level_ball = table_ball\<lparr> m_shape := (158, 450), m_previous_position := (178, 450),
                              m_angle := 3 * pi / 2, m_speed := 20 \<rparr>"

definition slant_ball :: Ball where
  "slant_ball = table_ball\<lparr> m_shape := (158, 470), m_previous_position := (178, 430),
                              m_angle := 2 * pi - arctan (1 / 2), m_speed := 20 * sqrt 5 \<rparr>"

text \<open>
  The left paddle lower on the table, and a ball below it that moves away from it.
\<close>

definition low_paddle :: Paddle where
  "low_paddle = left_paddle\<lparr> m_shape_position := (155, 600) \<rparr>"

definition departing_ball :: Ball where
  "departing_ball = table_ball\<lparr> m_shape := (700, 700), m_previous_position := (690, 700),
                                  m_angle := pi / 2, m_direction := MovesToRight \<rparr>"

text \<open>A ball above that paddle that moves toward its side.\<close>

definition approaching_ball :: Ball where
  "approaching_ball = table_ball\<lparr> m_shape := (700, 400), m_previous_position := (700, 410) \<rparr>"

section \<open>Properties\<close>

subsection \<open>The direction follows the angle\<close>

lemma to_Direction_low: "0 \<le> a \<Longrightarrow> a < pi \<Longrightarrow> to_Direction a = 0"
  by (simp add: to_Direction_def trunc_int_def floor_eq_iff)

lemma to_Direction_high: "pi \<le> a \<Longrightarrow> a < 2 * pi \<Longrightarrow> to_Direction a = 1"
proof -
  assume a: "pi \<le> a" "a < 2 * pi"
  have q1: "1 \<le> a / pi" using a by (simp add: pos_le_divide_eq)
  have q2: "a / pi < 2" using a by (simp add: pos_divide_less_eq)
  have "\<lfloor>a / pi\<rfloor> = 1" using q1 q2 by (simp add: floor_eq_iff)
  moreover have "0 \<le> a / pi" using q1 by linarith
  ultimately show ?thesis unfolding to_Direction_def trunc_int_def by simp
qed

lemma dir_inv_two_valued:
  "dir_inv b \<Longrightarrow> (m_direction b = MovesToRight \<longleftrightarrow> m_angle b < pi) \<and> (m_direction b = MovesToLeft \<longleftrightarrow> pi \<le> m_angle b)"
  unfolding dir_inv_def MovesToRight_def MovesToLeft_def
  using to_Direction_low[of "m_angle b"] to_Direction_high[of "m_angle b"]
  by (cases "m_angle b < pi") auto

lemma new_ball_angle_left:
  assumes "0 \<le> u" "u < 1" "m_direction b = MovesToLeft"
  shows "pi \<le> m_angle (fst (new_ball coin u b)) \<and> m_angle (fst (new_ball coin u b)) < 2 * pi"
proof -
  have "\<exists>c. 1 \<le> c \<and> c < 2 \<and> m_angle (fst (new_ball coin u b)) = c * pi"
  proof (cases coin)
    case True
    have "m_angle (fst (new_ball coin u b)) = (1.22 + (1.33 - 1.22) * u) * pi"
      using assms True by (simp add: new_ball_def Let_def UniDisf_def algebra_simps)
    moreover have "1 \<le> 1.22 + (1.33 - 1.22) * u" "1.22 + (1.33 - 1.22) * u < 2" using assms by auto
    ultimately show ?thesis by blast
  next
    case False
    have "m_angle (fst (new_ball coin u b)) = (1.66 + (1.78 - 1.66) * u) * pi"
      using assms False by (simp add: new_ball_def Let_def UniDisf_def algebra_simps)
    moreover have "1 \<le> 1.66 + (1.78 - 1.66) * u" "1.66 + (1.78 - 1.66) * u < 2" using assms by auto
    ultimately show ?thesis by blast
  qed
  then obtain c where c: "1 \<le> c" "c < 2" "m_angle (fst (new_ball coin u b)) = c * pi" by blast
  have "pi \<le> c * pi" using c(1) pi_gt_zero by simp
  moreover have "c * pi < 2 * pi" using c(2) pi_gt_zero by simp
  ultimately show ?thesis using c(3) by simp
qed

lemma new_ball_angle_right:
  assumes "0 \<le> u" "u < 1" "m_direction b \<noteq> MovesToLeft"
  shows "0 \<le> m_angle (fst (new_ball coin u b)) \<and> m_angle (fst (new_ball coin u b)) < pi"
proof -
  have "\<exists>c. 0 \<le> c \<and> c < 1 \<and> m_angle (fst (new_ball coin u b)) = c * pi"
  proof (cases coin)
    case True
    have "m_angle (fst (new_ball coin u b)) = (0.66 + (0.78 - 0.66) * u) * pi"
      using assms True by (simp add: new_ball_def Let_def UniDisf_def algebra_simps)
    moreover have "0 \<le> 0.66 + (0.78 - 0.66) * u" "0.66 + (0.78 - 0.66) * u < 1" using assms by auto
    ultimately show ?thesis by blast
  next
    case False
    have "m_angle (fst (new_ball coin u b)) = (0.22 + (0.33 - 0.22) * u) * pi"
      using assms False by (simp add: new_ball_def Let_def UniDisf_def algebra_simps)
    moreover have "0 \<le> 0.22 + (0.33 - 0.22) * u" "0.22 + (0.33 - 0.22) * u < 1" using assms by auto
    ultimately show ?thesis by blast
  qed
  then obtain c where c: "0 \<le> c" "c < 1" "m_angle (fst (new_ball coin u b)) = c * pi" by blast
  have "0 \<le> c * pi" using c(1) pi_gt_zero by simp
  moreover have "c * pi < pi" using c(2) pi_gt_zero by simp
  ultimately show ?thesis using c(3) by simp
qed

lemma new_ball_direction: "m_direction (fst (new_ball coin u b)) = m_direction b"
  by (simp add: new_ball_def Let_def)

lemma new_ball_dir_inv:
  assumes "0 \<le> u" "u < 1"
      and "m_direction b = MovesToRight \<or> m_direction b = MovesToLeft"
  shows "dir_inv (fst (new_ball coin u b))"
proof (cases "m_direction b = MovesToLeft")
  case True
  from new_ball_angle_left[OF assms(1,2) True, of coin]
  show ?thesis using True to_Direction_high[of "m_angle (fst (new_ball coin u b))"]
    by (simp add: dir_inv_def new_ball_direction MovesToLeft_def)
next
  case False
  have r: "m_direction b = MovesToRight"
    using assms(3) False by auto
  from new_ball_angle_right[OF assms(1,2) False, of coin]
  show ?thesis using r to_Direction_low[of "m_angle (fst (new_ball coin u b))"] pi_gt_zero
    by (simp add: dir_inv_def new_ball_direction MovesToRight_def)
qed

lemma Ball_ctor_dir_inv:
  assumes "0 \<le> u" "u < 1"
  shows "dir_inv (Ball_ctor refresh u)"
proof -
  define c where "c = 0.333 + (0.666 - 0.333) * u"
  have a: "m_angle (Ball_ctor refresh u) = c * pi"
    by (simp add: Ball_ctor_def Let_def UniDisf_def c_def algebra_simps)
  have d: "m_direction (Ball_ctor refresh u) = to_Direction (m_angle (Ball_ctor refresh u))"
    by (simp add: Ball_ctor_def Let_def)
  have c: "0 \<le> c" "c < 1" using assms by (auto simp: c_def)
  have "0 \<le> c * pi" using c(1) pi_gt_zero by simp
  moreover have "c * pi < 2 * pi" using c(2) pi_gt_zero by simp
  ultimately show ?thesis using a d by (simp add: dir_inv_def)
qed

lemma clamp_std_range: "lo \<le> hi \<Longrightarrow> lo \<le> clamp_std v lo hi \<and> clamp_std v lo hi \<le> hi"
  by (simp add: clamp_std_def)

lemma return_ball_angle:
  "m_angle (return_ball p b i r noise) =
     clamp_std (pi / 2 + of_bool (MovesToRight = m_direction b) * pi
                 + 0.075 * (if Right_side = m_side p then sector_hit p b else - sector_hit p b) + noise)
       (of_bool (MovesToRight = m_direction b) * pi + 0.01 * pi)
       (pi + of_bool (MovesToRight = m_direction b) * pi - 0.01 * pi)"
  by (simp add: return_ball_def Let_def)

lemma return_ball_direction:
  "m_direction (return_ball p b i r noise) = to_Direction (m_angle (return_ball p b i r noise))"
  by (simp add: return_ball_def Let_def)

lemma return_ball_angle_range:
  "(if MovesToRight = m_direction b then pi else 0) + 0.01 * pi \<le> m_angle (return_ball p b i r noise) \<and>
   m_angle (return_ball p b i r noise) \<le> (if MovesToRight = m_direction b then pi else 0) + 0.99 * pi"
proof -
  let ?z = "of_bool (MovesToRight = m_direction b) * pi :: real"
  have le: "?z + 0.01 * pi \<le> pi + ?z - 0.01 * pi" using pi_gt_zero by simp
  have "?z + 0.01 * pi \<le> m_angle (return_ball p b i r noise) \<and>
        m_angle (return_ball p b i r noise) \<le> pi + ?z - 0.01 * pi"
    unfolding return_ball_angle by (rule clamp_std_range[OF le])
  then show ?thesis by (cases "MovesToRight = m_direction b") simp_all
qed

lemma range_aux:
  fixes a z q :: real
  assumes "0 < q" "z + 0.01 * q \<le> a" "a \<le> z + 0.99 * q" "z = 0 \<or> z = q"
  shows "0 \<le> a \<and> a < 2 * q"
  using assms by auto

lemma return_ball_dir_inv: "dir_inv (return_ball p b i r noise)"
proof -
  let ?a = "m_angle (return_ball p b i r noise)"
  let ?z = "if MovesToRight = m_direction b then pi else 0 :: real"
  have z: "?z = 0 \<or> ?z = pi" by simp
  have r1: "?z + 0.01 * pi \<le> ?a" and r2: "?a \<le> ?z + 0.99 * pi"
    using return_ball_angle_range[of b p i r noise] by blast+
  have "0 \<le> ?a \<and> ?a < 2 * pi"
    by (rule range_aux[OF pi_gt_zero r1 r2 z])
  then show ?thesis by (simp add: dir_inv_def return_ball_direction)
qed

lemma return_ball_unplaced_eq:
  "return_ball_unplaced p b noise = (return_ball p b i r noise)\<lparr> m_shape := m_shape b \<rparr>"
  by (simp add: return_ball_unplaced_def return_ball_def Let_def)

lemma return_ball_unplaced_angle:
  "m_angle (return_ball_unplaced p b noise) =
     clamp_std (pi / 2 + of_bool (MovesToRight = m_direction b) * pi
                 + 0.075 * (if Right_side = m_side p then sector_hit p b else - sector_hit p b) + noise)
       (of_bool (MovesToRight = m_direction b) * pi + 0.01 * pi)
       (pi + of_bool (MovesToRight = m_direction b) * pi - 0.01 * pi)"
  by (simp add: return_ball_unplaced_def Let_def)

lemma return_ball_unplaced_dir_inv: "dir_inv (return_ball_unplaced p b noise)"
  using return_ball_dir_inv[of p b "(0, 0)" 0 noise]
  by (simp add: dir_inv_def return_ball_unplaced_eq[of p b noise "(0, 0)" 0])

lemma Paddle_update_dir_inv:
  assumes "dir_inv b"
  shows "dir_inv (the_ball (snd (snd (Paddle_update p b bp pp noise))))"
  using assms
  by (auto simp: Paddle_update_def Let_def return_ball_dir_inv return_ball_unplaced_dir_inv
           split: if_splits option.splits)

lemma Ball_update_establishes:
  assumes u: "0 \<le> u" "u < 1"
      and cr: "\<forall>a. 0 \<le> clampRadians a \<and> clampRadians a < 2 * pi"
      and tv: "m_direction b = MovesToRight \<or> m_direction b = MovesToLeft"
      and ev: "fst (Ball_update refresh clampRadians coin u noise b score) \<noteq> NoneE"
  shows "dir_inv (fst (snd (Ball_update refresh clampRadians coin u noise b score)))"
proof -
  let ?b0 = "b\<lparr> m_pause := 0, m_previous_position := m_shape b \<rparr>"
  have tv0: "m_direction ?b0 = MovesToRight \<or> m_direction ?b0 = MovesToLeft"
    using tv by simp
  have nb: "dir_inv (fst (new_ball coin u ?b0))" by (rule new_ball_dir_inv[OF u tv0])
  have refl: "\<And>x. dir_inv (x\<lparr> m_angle := clampRadians (pi - m_angle x + noise),
                 m_direction := to_Direction (clampRadians (pi - m_angle x + noise)) \<rparr>)"
    using cr by (simp add: dir_inv_def)
  show ?thesis
    using ev nb refl
    by (auto simp: Ball_update_def Let_def dir_inv_def split: prod.splits if_splits)
qed

lemma Ball_update_dir_inv:
  assumes u: "0 \<le> u" "u < 1"
      and cr: "\<forall>a. 0 \<le> clampRadians a \<and> clampRadians a < 2 * pi"
      and inv: "dir_inv b"
  shows "dir_inv (fst (snd (Ball_update refresh clampRadians coin u noise b score)))"
proof (cases "fst (Ball_update refresh clampRadians coin u noise b score) = NoneE")
  case True
  then show ?thesis
    using inv
    by (auto simp: Ball_update_def Let_def dir_inv_def split: prod.splits if_splits)
next
  case False
  have tv: "m_direction b = MovesToRight \<or> m_direction b = MovesToLeft"
    using dir_inv_two_valued[OF inv] inv by (auto simp: dir_inv_def)
  show ?thesis by (rule Ball_update_establishes[OF u cr tv False])
qed

lemma clampRadians_wrap_range: "0 \<le> clampRadians_wrap a \<and> clampRadians_wrap a < 2 * pi"
proof -
  let ?q = "a / (2 * pi)"
  have p: "0 < 2 * pi" using pi_gt_zero by simp
  have a: "a = 2 * pi * ?q" using p by simp
  have "real_of_int \<lfloor>?q\<rfloor> \<le> ?q" by simp
  then have "2 * pi * real_of_int \<lfloor>?q\<rfloor> \<le> 2 * pi * ?q"
    using p by (simp only: mult_le_cancel_left_pos)
  then have lo: "0 \<le> clampRadians_wrap a" using a by (simp add: clampRadians_wrap_def)
  have "?q < real_of_int \<lfloor>?q\<rfloor> + 1" by linarith
  then have "2 * pi * ?q < 2 * pi * (real_of_int \<lfloor>?q\<rfloor> + 1)"
    using p by (simp only: mult_less_cancel_left_pos)
  then have "a < 2 * pi * real_of_int \<lfloor>?q\<rfloor> + 2 * pi"
    using a by (simp add: algebra_simps)
  then have hi: "clampRadians_wrap a < 2 * pi" by (simp add: clampRadians_wrap_def)
  show ?thesis using lo hi by simp
qed

lemma table_ball_dir_inv: "dir_inv table_ball"
  using to_Direction_high[of pi] pi_gt_zero
  by (simp add: dir_inv_def table_ball_def MovesToLeft_def)

text \<open>
  Claim C1. The direction of the ball is the cast of angle / pi, with the angle in
  \<open>[0, 2 pi)\<close>: the direction is \<open>MovesToRight\<close> exactly when the angle is in
  \<open>[0, pi)\<close> and \<open>MovesToLeft\<close> exactly when it is in \<open>[pi, 2 pi)\<close>. The constructor
  establishes this relation. Every operation that writes the angle establishes it
  again, whatever the angle was before, for a ball whose direction is one of the two
  enumerators: the reseed \<open>new_ball\<close> (which keeps the direction and draws the angle
  from the matching half), the paddle response \<open>return_ball\<close>, and every frame of
  \<open>Ball_update\<close> that returns \<open>Missed\<close> or \<open>HitWall\<close>. Hence every frame of the ball
  and every call of \<open>Paddle_update\<close> keeps the relation, also a call that leaves the
  ball without a real position. The unit sample is in
  \<open>[0, 1)\<close>, \<^verbatim>\<open>sf::clampRadians\<close> is taken to return an angle in \<open>[0, 2 pi)\<close>, and the
  paddle has a positive length.
\<close>

theorem direction_follows_angle:
  assumes "0 \<le> u" and "u < 1"
      and "\<forall>a. 0 \<le> clampRadians a \<and> clampRadians a < 2 * pi"
      and "m_direction b = MovesToRight \<or> m_direction b = MovesToLeft"
      and "0 < m_paddle_length p"
  shows "dir_inv (Ball_ctor refresh u) \<and>
         dir_inv (fst (new_ball coin u b)) \<and>
         dir_inv (return_ball p b i r noise) \<and>
         (fst (Ball_update refresh clampRadians coin u noise b score) \<noteq> NoneE \<longrightarrow>
            dir_inv (fst (snd (Ball_update refresh clampRadians coin u noise b score)))) \<and>
         (dir_inv b \<longrightarrow>
            dir_inv (fst (snd (Ball_update refresh clampRadians coin u noise b score))) \<and>
            dir_inv (the_ball (snd (snd (Paddle_update p b bp pp noise)))) \<and>
            (m_direction b = MovesToRight \<longleftrightarrow> 0 \<le> m_angle b \<and> m_angle b < pi) \<and>
            (m_direction b = MovesToLeft \<longleftrightarrow> pi \<le> m_angle b \<and> m_angle b < 2 * pi))"
proof -
  have pu: "dir_inv (the_ball (snd (snd (Paddle_update p b bp pp noise))))"
    if inv: "dir_inv b"
    by (rule Paddle_update_dir_inv[OF inv])
  have ch: "(m_direction b = MovesToRight \<longleftrightarrow> 0 \<le> m_angle b \<and> m_angle b < pi) \<and>
            (m_direction b = MovesToLeft \<longleftrightarrow> pi \<le> m_angle b \<and> m_angle b < 2 * pi)"
    if inv: "dir_inv b"
    using dir_inv_two_valued[OF inv] inv by (auto simp: dir_inv_def)
  show ?thesis
    using Ball_ctor_dir_inv[OF assms(1,2)] new_ball_dir_inv[OF assms(1,2,4)]
      return_ball_dir_inv Ball_update_establishes[OF assms(1-4)]
      Ball_update_dir_inv[OF assms(1-3)] pu ch
    by blast
qed

theorem direction_follows_angle_witness:
  "(m_direction table_ball = MovesToRight \<or> m_direction table_ball = MovesToLeft) \<and>
   dir_inv table_ball \<and>
   pi \<le> m_angle table_ball \<and> m_angle table_ball < 2 * pi \<and>
   dir_inv (fst (new_ball True (1 / 2) table_ball)) \<and>
   dir_inv (return_ball left_paddle table_ball (168, 450) 1 0) \<and>
   dir_inv (fst (snd (Ball_update 60 clampRadians_wrap True (1 / 2) 0 table_ball score0))) \<and>
   dir_inv (the_ball (snd (snd (Paddle_update left_paddle table_ball (500, 110) (155, 450) 0))))"
proof -
  have u: "(0::real) \<le> 1 / 2" "(1 / 2 :: real) < 1" by simp_all
  have cr: "\<forall>a. 0 \<le> clampRadians_wrap a \<and> clampRadians_wrap a < 2 * pi"
    using clampRadians_wrap_range by blast
  have d: "m_direction table_ball = MovesToLeft" by (simp add: table_ball_def)
  have l: "0 < m_paddle_length left_paddle" by (simp add: left_paddle_def)
  note t = direction_follows_angle[OF u cr disjI2[OF d] l,
             of 60 True "(168, 450)" 1 0 score0 "(500, 110)" "(155, 450)"]
  show ?thesis using t d table_ball_dir_inv by blast
qed

subsection \<open>Frames of the ball\<close>

lemma new_ball_position: "snd (new_ball coin u b) = reseed_position coin b"
  by (simp add: new_ball_def reseed_position_def Let_def)

lemma new_ball_speed: "m_speed (fst (new_ball coin u b)) = 10"
  by (simp add: new_ball_def Let_def)

lemma reseed_position_in_bounds:
  assumes "snd (m_min b) \<le> snd (m_max b)"
  shows "snd (m_min b) \<le> snd (reseed_position coin b) \<and> snd (reseed_position coin b) \<le> snd (m_max b)"
proof -
  define d where "d = snd (m_max b) - snd (m_min b)"
  have d: "0 \<le> d" using assms by (simp add: d_def)
  have "snd (reseed_position coin b) = d * (if coin then 0.9 else 0.1) + snd (m_min b)"
    by (simp add: reseed_position_def d_def)
  moreover have "0 \<le> d * (if coin then 0.9 else 0.1)" using d by simp
  moreover have "d * (if coin then 0.9 else 0.1) \<le> d" using d by simp
  ultimately show ?thesis by (simp add: d_def)
qed

text \<open>The frame of an unpaused ball, as the composition of the miss step and the wall step.\<close>

lemma Ball_update_miss:
  assumes "\<not> 0 < m_pause b"
      and "fst (candidate b) < fst (m_min b) \<or> fst (candidate b) > fst (m_max b)"
  shows "Ball_update refresh clampRadians coin u noise b score =
     (let b0 = b\<lparr> m_pause := 0, m_previous_position := m_shape b \<rparr>;
          b1 = fst (new_ball coin u b0);
          pos = reseed_position coin b;
          score1 = \<lparr> m_left = m_left score + of_bool (fst (candidate b) > fst (m_max b)),
                     m_right = m_right score + of_bool (fst (candidate b) < fst (m_min b)) \<rparr>
      in if snd pos < snd (m_min b) \<or> snd pos > snd (m_max b)
         then (HitWall,
               b1\<lparr> m_angle := clampRadians (pi - m_angle b1 + noise),
                    m_direction := to_Direction (clampRadians (pi - m_angle b1 + noise)),
                    m_shape := (fst pos, if snd pos < snd (m_min b) then snd (m_min b) else snd (m_max b)) \<rparr>,
               score1)
         else (Missed, b1\<lparr> m_shape := pos \<rparr>, score1))"
  using assms
  by (simp add: Ball_update_def Let_def candidate_def new_ball_def reseed_position_def split: prod.splits)

lemma Ball_update_no_miss:
  assumes "\<not> 0 < m_pause b"
      and "\<not> (fst (candidate b) < fst (m_min b) \<or> fst (candidate b) > fst (m_max b))"
  shows "Ball_update refresh clampRadians coin u noise b score =
     (let b0 = b\<lparr> m_pause := 0, m_previous_position := m_shape b \<rparr>;
          pos = candidate b
      in if snd pos < snd (m_min b) \<or> snd pos > snd (m_max b)
         then (HitWall,
               b0\<lparr> m_angle := clampRadians (pi - m_angle b + noise),
                    m_direction := to_Direction (clampRadians (pi - m_angle b + noise)),
                    m_shape := (fst pos, if snd pos < snd (m_min b) then snd (m_min b) else snd (m_max b)) \<rparr>,
               score)
         else (NoneE, b0\<lparr> m_shape := pos \<rparr>, score))"
  using assms
  by (simp add: Ball_update_def Let_def candidate_def split: prod.splits)

lemma Ball_update_paused:
  "0 < m_pause b \<Longrightarrow> Ball_update refresh clampRadians coin u noise b score =
     (NoneE, b\<lparr> m_pause := m_pause b - inc refresh \<rparr>, score)"
  by (simp add: Ball_update_def)

text \<open>
  Claim C8. On a table whose bounds are ordered, a frame that returns \<open>Missed\<close> adds 1
  to exactly one counter and leaves the other as it is: the right counter when the
  candidate position is left of the table, the left counter when it is right of it. A
  frame that returns \<open>NoneE\<close> or \<open>HitWall\<close> leaves the score as it is.
\<close>

theorem missed_changes_one_counter:
  assumes "fst (m_min b) \<le> fst (m_max b)" and "snd (m_min b) \<le> snd (m_max b)"
      and "Ball_update refresh clampRadians coin u noise b score = (ev, b', score')"
  shows "(ev = Missed \<longrightarrow>
            (fst (candidate b) < fst (m_min b) \<and>
               m_right score' = m_right score + 1 \<and> m_left score' = m_left score) \<or>
            (fst (candidate b) > fst (m_max b) \<and>
               m_left score' = m_left score + 1 \<and> m_right score' = m_right score)) \<and>
         (ev \<noteq> Missed \<longrightarrow> score' = score)"
proof (cases "0 < m_pause b")
  case True
  then show ?thesis using assms(3) by (simp add: Ball_update_paused)
next
  case unpaused: False
  show ?thesis
  proof (cases "fst (candidate b) < fst (m_min b) \<or> fst (candidate b) > fst (m_max b)")
    case True
    have inb: "\<not> (snd (reseed_position coin b) < snd (m_min b) \<or>
                   snd (reseed_position coin b) > snd (m_max b))"
      using reseed_position_in_bounds[OF assms(2), of coin] by auto
    have ev: "ev = Missed"
      and sc: "score' = \<lparr> m_left = m_left score + of_bool (fst (candidate b) > fst (m_max b)),
                          m_right = m_right score + of_bool (fst (candidate b) < fst (m_min b)) \<rparr>"
      using assms(3) inb unfolding Ball_update_miss[OF unpaused True] by (simp_all add: Let_def)
    show ?thesis using True assms(1) ev sc by auto
  next
    case False
    have "ev \<noteq> Missed \<and> score' = score"
      using assms(3) unfolding Ball_update_no_miss[OF unpaused False]
      by (auto simp: Let_def split: if_splits)
    then show ?thesis by simp
  qed
qed

lemma cand_miss_ball: "candidate miss_ball = (1095, 400)"
  by (simp add: candidate_def miss_ball_def table_ball_def vadd_def vscale_def)

theorem missed_changes_one_counter_witness:
  "fst (m_min miss_ball) \<le> fst (m_max miss_ball) \<and>
   snd (m_min miss_ball) \<le> snd (m_max miss_ball) \<and>
   fst (Ball_update 60 clampRadians_wrap True (1 / 2) 0 miss_ball score0) = Missed \<and>
   snd (snd (Ball_update 60 clampRadians_wrap True (1 / 2) 0 miss_ball score0))
     = \<lparr> m_left = 1, m_right = 0 \<rparr>"
proof -
  obtain ev b' s' where
    r: "Ball_update 60 clampRadians_wrap True (1 / 2) 0 miss_ball score0 = (ev, b', s')"
    by (cases "Ball_update 60 clampRadians_wrap True (1 / 2) 0 miss_ball score0") blast
  have h1: "fst (m_min miss_ball) \<le> fst (m_max miss_ball)"
    and h2: "snd (m_min miss_ball) \<le> snd (m_max miss_ball)"
    by (simp_all add: miss_ball_def table_ball_def)
  have up: "\<not> 0 < m_pause miss_ball" by (simp add: miss_ball_def table_ball_def)
  have ms: "fst (candidate miss_ball) < fst (m_min miss_ball) \<or>
            fst (candidate miss_ball) > fst (m_max miss_ball)"
    by (simp add: cand_miss_ball) (simp add: miss_ball_def table_ball_def)
  have inb: "\<not> (snd (reseed_position True miss_ball) < snd (m_min miss_ball) \<or>
                 snd (reseed_position True miss_ball) > snd (m_max miss_ball))"
    by (simp add: reseed_position_def miss_ball_def table_ball_def)
  have ev: "ev = Missed"
    using r inb unfolding Ball_update_miss[OF up ms] by (simp add: Let_def)
  have nl: "\<not> fst (candidate miss_ball) < fst (m_min miss_ball)"
    by (simp add: cand_miss_ball) (simp add: miss_ball_def table_ball_def)
  from missed_changes_one_counter[OF h1 h2 r] ev nl
  have "m_left s' = m_left score0 + 1 \<and> m_right s' = m_right score0" by blast
  then have "s' = \<lparr> m_left = 1, m_right = 0 \<rparr>" by (cases s') (simp add: score0_def)
  then show ?thesis using r ev h1 h2 by simp
qed

text \<open>
  Claim C9, as amended. A frame that returns \<open>HitWall\<close> and whose candidate position
  is inside the horizontal bounds (no miss) leaves the speed and the score as they
  are. The ball after the frame is the ball before it with a new position (the
  candidate, its height set to the violated bound), the reflected angle, the direction
  of that angle, the previous position set to the position the frame started with, and
  the pause countdown set to zero; the speed increment and the bounds are untouched.
\<close>

theorem wall_reflection_frame:
  assumes "Ball_update refresh clampRadians coin u noise b score = (HitWall, b', score')"
      and "fst (m_min b) \<le> fst (candidate b)" and "fst (candidate b) \<le> fst (m_max b)"
  shows "m_speed b' = m_speed b \<and> score' = score \<and>
         b' = b\<lparr> m_shape := (fst (candidate b),
                              if snd (candidate b) < snd (m_min b) then snd (m_min b)
                              else snd (m_max b)),
                  m_angle := clampRadians (pi - m_angle b + noise),
                  m_direction := to_Direction (clampRadians (pi - m_angle b + noise)),
                  m_previous_position := m_shape b,
                  m_pause := 0 \<rparr>"
proof -
  have unpaused: "\<not> 0 < m_pause b"
    using assms(1) by (auto simp: Ball_update_paused)
  have nomiss: "\<not> (fst (candidate b) < fst (m_min b) \<or> fst (candidate b) > fst (m_max b))"
    using assms(2,3) by auto
  show ?thesis
    using assms(1) unfolding Ball_update_no_miss[OF unpaused nomiss]
    by (auto simp: Let_def split: if_splits)
qed

lemma cand_table_ball: "candidate table_ball = (500, 100)"
  by (simp add: candidate_def table_ball_def vadd_def vscale_def)

lemma cand_late_ball: "candidate late_ball = (500, 100)"
  by (simp add: candidate_def late_ball_def table_ball_def vadd_def vscale_def)

lemma Ball_update_table_ball:
  "Ball_update 60 clampRadians_wrap True (1 / 2) 0 table_ball score0 =
     (HitWall,
      table_ball\<lparr> m_shape := (500, 102.5), m_angle := 0, m_direction := MovesToRight,
                  m_previous_position := (500, 110) \<rparr>,
      score0)"
proof -
  have up: "\<not> 0 < m_pause table_ball" by (simp add: table_ball_def)
  have nm: "\<not> (fst (candidate table_ball) < fst (m_min table_ball) \<or>
                fst (candidate table_ball) > fst (m_max table_ball))"
    by (simp add: cand_table_ball) (simp add: table_ball_def)
  have w: "clampRadians_wrap (pi - m_angle table_ball + 0) = 0"
    by (simp add: table_ball_def clampRadians_wrap_def)
  have d: "to_Direction 0 = MovesToRight"
    by (simp add: to_Direction_def trunc_int_def MovesToRight_def)
  show ?thesis
    unfolding Ball_update_no_miss[OF up nm] Let_def w d cand_table_ball
    by (simp add: table_ball_def)
qed

theorem wall_reflection_frame_witness:
  "fst (Ball_update 60 clampRadians_wrap True (1 / 2) 0 table_ball score0) = HitWall \<and>
   fst (m_min table_ball) \<le> fst (candidate table_ball) \<and>
   fst (candidate table_ball) \<le> fst (m_max table_ball) \<and>
   m_speed (fst (snd (Ball_update 60 clampRadians_wrap True (1 / 2) 0 table_ball score0)))
     = m_speed table_ball \<and>
   m_shape (fst (snd (Ball_update 60 clampRadians_wrap True (1 / 2) 0 table_ball score0)))
     = (500, 102.5)"
proof -
  have h2: "fst (m_min table_ball) \<le> fst (candidate table_ball)"
    and h3: "fst (candidate table_ball) \<le> fst (m_max table_ball)"
    by (simp_all add: cand_table_ball) (simp_all add: table_ball_def)
  note t = wall_reflection_frame[OF Ball_update_table_ball h2 h3]
  have sp: "m_speed (fst (snd (Ball_update 60 clampRadians_wrap True (1 / 2) 0 table_ball score0)))
              = m_speed table_ball"
    unfolding Ball_update_table_ball fst_conv snd_conv by (rule conjunct1[OF t])
  show ?thesis using sp h2 h3 by (simp add: Ball_update_table_ball)
qed

text \<open>
  Claim C9 as stated fails where it says that only the angle, the direction and the
  position change. The frame of \<open>table_ball\<close> reflects at the top wall without a miss
  and moves the recorded previous position from \<open>(500, 120)\<close> to \<open>(500, 110)\<close>; the
  same frame of \<open>late_ball\<close> also changes the pause countdown from -20000/3 to 0.
\<close>

theorem wall_reflection_changes_more:
  "fst (Ball_update 60 clampRadians_wrap True (1 / 2) 0 table_ball score0) = HitWall \<and>
   fst (m_min table_ball) \<le> fst (candidate table_ball) \<and>
   fst (candidate table_ball) \<le> fst (m_max table_ball) \<and>
   m_previous_position table_ball = (500, 120) \<and>
   m_previous_position
     (fst (snd (Ball_update 60 clampRadians_wrap True (1 / 2) 0 table_ball score0)))
     = (500, 110) \<and>
   fst (Ball_update 75 clampRadians_wrap True (1 / 2) 0 late_ball score0) = HitWall \<and>
   fst (m_min late_ball) \<le> fst (candidate late_ball) \<and>
   fst (candidate late_ball) \<le> fst (m_max late_ball) \<and>
   m_pause late_ball = - 20000 / 3 \<and>
   m_pause (fst (snd (Ball_update 75 clampRadians_wrap True (1 / 2) 0 late_ball score0))) = 0"
proof -
  have t: "fst (m_min table_ball) \<le> fst (candidate table_ball) \<and>
           fst (candidate table_ball) \<le> fst (m_max table_ball) \<and>
           m_previous_position table_ball = (500, 120)"
    by (simp add: cand_table_ball) (simp add: table_ball_def)
  have up: "\<not> 0 < m_pause late_ball" by (simp add: late_ball_def table_ball_def)
  have nm: "\<not> (fst (candidate late_ball) < fst (m_min late_ball) \<or>
                fst (candidate late_ball) > fst (m_max late_ball))"
    by (simp add: cand_late_ball) (simp add: late_ball_def table_ball_def)
  have l: "fst (Ball_update 75 clampRadians_wrap True (1 / 2) 0 late_ball score0) = HitWall \<and>
   fst (m_min late_ball) \<le> fst (candidate late_ball) \<and>
   fst (candidate late_ball) \<le> fst (m_max late_ball) \<and>
   m_pause late_ball = - 20000 / 3 \<and>
   m_pause (fst (snd (Ball_update 75 clampRadians_wrap True (1 / 2) 0 late_ball score0))) = 0"
    unfolding Ball_update_no_miss[OF up nm] Let_def cand_late_ball
    by (simp add: late_ball_def table_ball_def)
  show ?thesis using t l by (simp add: Ball_update_table_ball)
qed

text \<open>
  Claim C7. In a frame of an unpaused ball whose candidate position violates a
  horizontal bound, the vertical check reads the reseeded position, not the candidate:
  the frame returns \<open>HitWall\<close> exactly when the reseeded height is outside the vertical
  bounds and \<open>Missed\<close> otherwise, the final position is the reseeded one with its height
  set to the violated bound if there is one, a reflection reflects the reseeded angle,
  and the speed is the reseeded speed.
\<close>

theorem miss_precedes_wall_check:
  assumes "\<not> 0 < m_pause b"
      and "fst (candidate b) < fst (m_min b) \<or> fst (candidate b) > fst (m_max b)"
      and "Ball_update refresh clampRadians coin u noise b score = (ev, b', score')"
  shows "(ev = HitWall \<longleftrightarrow> snd (reseed_position coin b) < snd (m_min b) \<or>
                           snd (reseed_position coin b) > snd (m_max b)) \<and>
         (ev \<noteq> HitWall \<longleftrightarrow> ev = Missed) \<and>
         m_shape b' =
           (fst (reseed_position coin b),
            if snd (reseed_position coin b) < snd (m_min b) then snd (m_min b)
            else if snd (reseed_position coin b) > snd (m_max b) then snd (m_max b)
            else snd (reseed_position coin b)) \<and>
         m_angle b' =
           (if ev = HitWall
            then clampRadians (pi - m_angle (fst (new_ball coin u b)) + noise)
            else m_angle (fst (new_ball coin u b))) \<and>
         m_speed b' = 10"
  using assms(3) unfolding Ball_update_miss[OF assms(1,2)]
  by (auto simp: Let_def new_ball_def split: if_splits)

text \<open>
  The frame of \<open>corner_ball\<close>: the candidate violates the right and the bottom bound,
  the reseeded position violates none, and the frame returns \<open>Missed\<close> without a
  reflection.
\<close>

lemma cand_corner_ball: "candidate corner_ball = (1090, 785 + 5 * sqrt 3)"
  by (simp add: candidate_def corner_ball_def table_ball_def vadd_def vscale_def sin_30 cos_30)

theorem miss_precedes_wall_check_witness:
  "fst (candidate corner_ball) > fst (m_max corner_ball) \<and>
   snd (candidate corner_ball) > snd (m_max corner_ball) \<and>
   fst (Ball_update 60 clampRadians_wrap True (1 / 2) 0 corner_ball score0) = Missed \<and>
   m_shape (fst (snd (Ball_update 60 clampRadians_wrap True (1 / 2) 0 corner_ball score0)))
     = (595, 719)"
proof -
  obtain ev b' s' where
    r: "Ball_update 60 clampRadians_wrap True (1 / 2) 0 corner_ball score0 = (ev, b', s')"
    by (cases "Ball_update 60 clampRadians_wrap True (1 / 2) 0 corner_ball score0") blast
  have up: "\<not> 0 < m_pause corner_ball" by (simp add: corner_ball_def table_ball_def)
  have x: "fst (candidate corner_ball) > fst (m_max corner_ball)"
    by (simp add: cand_corner_ball) (simp add: corner_ball_def table_ball_def)
  have "1 < sqrt 3" by simp
  then have "1 < 2 * sqrt 3" by linarith
  then have y: "snd (candidate corner_ball) > snd (m_max corner_ball)"
    by (simp add: cand_corner_ball) (simp add: corner_ball_def table_ball_def)
  have rp: "reseed_position True corner_ball = (595, 719)"
    by (simp add: reseed_position_def corner_ball_def table_ball_def)
  have bnds: "snd (m_min corner_ball) = 102.5" "snd (m_max corner_ball) = 787.5"
    by (simp_all add: corner_ball_def table_ball_def)
  note t = miss_precedes_wall_check[OF up disjI2[OF x] r]
  have "ev = Missed \<and> m_shape b' = (595, 719)"
    using t unfolding rp bnds by auto
  then show ?thesis using r x y by simp
qed

text \<open>
  Claim C3 describes a reseed that resets the speed to 10 times the speed increment,
  the speed of the constructor. \<open>new_ball\<close> writes the constant 10 instead: on a 120 Hz
  screen the ball is constructed with speed 5 and leaves a miss with speed 10.
\<close>

theorem reseed_speed_ignores_increment:
  "fst (Ball_update 120 clampRadians_wrap True (1 / 2) 0 fast_screen_ball score0) = Missed \<and>
   m_speed fast_screen_ball = 5 \<and>
   10 * m_speed_increment fast_screen_ball = 5 \<and>
   m_speed (fst (snd (Ball_update 120 clampRadians_wrap True (1 / 2) 0 fast_screen_ball score0)))
     = 10"
proof -
  have a: "m_angle fast_screen_ball = pi / 2"
    by (simp add: fast_screen_ball_def Ball_ctor_def Let_def UniDisf_def)
  have c: "candidate fast_screen_ball = (1090, 400)"
    unfolding candidate_def a
    by (simp add: fast_screen_ball_def Ball_ctor_def Let_def vadd_def vscale_def)
  have up: "\<not> 0 < m_pause fast_screen_ball"
    by (simp add: fast_screen_ball_def Ball_ctor_def Let_def)
  have ms: "fst (candidate fast_screen_ball) < fst (m_min fast_screen_ball) \<or>
            fst (candidate fast_screen_ball) > fst (m_max fast_screen_ball)"
    unfolding c by (simp add: fast_screen_ball_def)
  have rp: "reseed_position True fast_screen_ball = (595, 719)"
    by (simp add: reseed_position_def fast_screen_ball_def)
  have bnds: "snd (m_min fast_screen_ball) = 102.5" "snd (m_max fast_screen_ball) = 787.5"
    by (simp_all add: fast_screen_ball_def)
  show ?thesis
    unfolding Ball_update_miss[OF up ms] Let_def rp bnds
    by (simp add: new_ball_speed) (simp add: fast_screen_ball_def Ball_ctor_def Let_def)
qed

subsection \<open>Paddle collision\<close>

text \<open>A call of \<open>Paddle_update\<close>, by the branch it takes.\<close>

lemma Paddle_update_rejected:
  "cheaply_rejected p ball bp (fst pp + fst (m_paddle_detector_offset p)) \<Longrightarrow>
   Paddle_update p ball bp pp noise = (False, p\<lparr> m_shape_position := pp \<rparr>, Placed ball)"
  by (auto simp: Paddle_update_def cheaply_rejected_def Let_def vadd_def split: if_splits)

lemma Paddle_update_vertical:
  assumes "\<not> cheaply_rejected p ball bp (fst pp + fst (m_paddle_detector_offset p))"
      and "\<not> not_equal_f 0 (fst bp - fst (m_previous_position ball))"
  shows "Paddle_update p ball bp pp noise =
     (let p' = p\<lparr> m_shape_position := pp \<rparr>;
          zone = vadd pp (m_paddle_detector_offset p);
          i = (if snd (m_previous_position ball) > snd zone
               then (fst zone, snd zone + m_paddle_detector_length p) else zone)
      in (True, p',
          case fdiv (fst i - fst (m_previous_position ball))
                    (fst bp - fst (m_previous_position ball)) of
            Some q \<Rightarrow> Placed (return_ball p' ball i (1 - q) noise)
          | None \<Rightarrow> Unplaced (return_ball_unplaced p' ball noise)))"
  using assms
  by (auto simp: Paddle_update_def cheaply_rejected_def Let_def vadd_def vsub_def
           split: if_splits option.splits)

lemma Paddle_update_slanted:
  assumes "\<not> cheaply_rejected p ball bp (fst pp + fst (m_paddle_detector_offset p))"
      and "not_equal_f 0 (fst bp - fst (m_previous_position ball))"
  shows "Paddle_update p ball bp pp noise =
     (let p' = p\<lparr> m_shape_position := pp \<rparr>;
          zone = vadd pp (m_paddle_detector_offset p);
          y = (snd bp - snd (m_previous_position ball)) / (fst bp - fst (m_previous_position ball))
                * (fst zone - fst bp) + snd bp
      in if y \<ge> snd zone \<and> y \<le> snd zone + m_paddle_detector_length p
         then (True, p', Placed (return_ball p' ball (fst zone, y) 1 noise))
         else (False, p', Placed ball))"
proof -
  have nz: "fst bp - fst (m_previous_position ball) \<noteq> 0"
    using assms(2) by (auto simp: not_equal_f_def FLT_EPSILON_def)
  show ?thesis
    using assms nz
    by (auto simp: Paddle_update_def cheaply_rejected_def Let_def vadd_def vsub_def split: if_splits)
qed

text \<open>
  Claim C10. Once the cheap rejection has passed, a travel segment whose horizontal
  delta is below four machine epsilons is reported as a hit, whatever the heights of
  the segment and of the detector are.
\<close>

theorem vertical_segment_always_hits:
  assumes "\<not> cheaply_rejected p ball bp (fst pp + fst (m_paddle_detector_offset p))"
      and "\<not> not_equal_f 0 (fst bp - fst (m_previous_position ball))"
  shows "fst (Paddle_update p ball bp pp noise) = True"
  unfolding Paddle_update_vertical[OF assms] by (simp add: Let_def)

lemma left_paddle_zone:
  "vadd (155, 450) (m_paddle_detector_offset left_paddle) = (168, 409)"
  "fst (155::real, 450::real) + fst (m_paddle_detector_offset left_paddle) = 168"
  "m_paddle_detector_length left_paddle = 82"
  "left_paddle\<lparr> m_shape_position := (155, 450) \<rparr> = left_paddle"
  by (simp_all add: left_paddle_def vadd_def)

text \<open>
  The frame of \<open>vertical_ball\<close>: the segment runs from height 110 to height 100, the
  detector from 409 to 491, and the call returns a hit.
\<close>

theorem vertical_segment_always_hits_witness:
  "\<not> cheaply_rejected left_paddle vertical_ball (m_shape vertical_ball) 168 \<and>
   \<not> not_equal_f 0 (fst (m_shape vertical_ball) - fst (m_previous_position vertical_ball)) \<and>
   snd (m_shape vertical_ball) < 409 \<and> snd (m_previous_position vertical_ball) < 409 \<and>
   fst (Paddle_update left_paddle vertical_ball (m_shape vertical_ball) (155, 450) 0) = True"
proof -
  have h1: "\<not> cheaply_rejected left_paddle vertical_ball (m_shape vertical_ball)
                (fst (155::real, 450::real) + fst (m_paddle_detector_offset left_paddle))"
    unfolding left_paddle_zone
    by (simp add: cheaply_rejected_def left_paddle_def vertical_ball_def table_ball_def
          MovesToRight_def MovesToLeft_def)
  have h2: "\<not> not_equal_f 0 (fst (m_shape vertical_ball) - fst (m_previous_position vertical_ball))"
    by (simp add: not_equal_f_def FLT_EPSILON_def vertical_ball_def table_ball_def)
  note t = vertical_segment_always_hits[OF h1 h2, of 0]
  have "snd (m_shape vertical_ball) < 409 \<and> snd (m_previous_position vertical_ball) < 409"
    by (simp add: vertical_ball_def table_ball_def)
  then show ?thesis using t h1 h2 unfolding left_paddle_zone by blast
qed

text \<open>
  Claim C4 requires that no branch divides by a horizontal delta near zero. The
  vertical branch does: it is entered because the delta is below the threshold, and
  it divides by that delta to compute the ratio. In the frame of \<open>colinear_ball\<close> the
  delta is zero, the quotient is no number, and the ball is left without a real
  position.
\<close>

theorem vertical_branch_divides_by_zero:
  "\<not> cheaply_rejected left_paddle colinear_ball (m_shape colinear_ball) 168 \<and>
   \<not> not_equal_f 0 (fst (m_shape colinear_ball) - fst (m_previous_position colinear_ball)) \<and>
   fdiv (168 - fst (m_previous_position colinear_ball))
        (fst (m_shape colinear_ball) - fst (m_previous_position colinear_ball)) = None \<and>
   Paddle_update left_paddle colinear_ball (m_shape colinear_ball) (155, 450) 0
     = (True, left_paddle, Unplaced (return_ball_unplaced left_paddle colinear_ball 0))"
proof -
  have h1: "\<not> cheaply_rejected left_paddle colinear_ball (m_shape colinear_ball)
                (fst (155::real, 450::real) + fst (m_paddle_detector_offset left_paddle))"
    unfolding left_paddle_zone
    by (simp add: cheaply_rejected_def left_paddle_def colinear_ball_def table_ball_def
          MovesToRight_def MovesToLeft_def)
  have h2: "\<not> not_equal_f 0 (fst (m_shape colinear_ball) - fst (m_previous_position colinear_ball))"
    by (simp add: not_equal_f_def FLT_EPSILON_def colinear_ball_def table_ball_def)
  have d: "fdiv (168 - fst (m_previous_position colinear_ball))
        (fst (m_shape colinear_ball) - fst (m_previous_position colinear_ball)) = None"
    by (simp add: fdiv_def colinear_ball_def table_ball_def)
  have u: "Paddle_update left_paddle colinear_ball (m_shape colinear_ball) (155, 450) 0
     = (True, left_paddle, Unplaced (return_ball_unplaced left_paddle colinear_ball 0))"
    unfolding Paddle_update_vertical[OF h1 h2] Let_def left_paddle_zone
    by (simp add: fdiv_def colinear_ball_def table_ball_def)
  show ?thesis using h1 h2 d u unfolding left_paddle_zone by blast
qed

lemma pi_half_clamped: "clamp_std (pi / 2) (0 + 0.01 * pi) (pi + 0 - 0.01 * pi) = pi / 2"
  using pi_gt_zero by (simp add: clamp_std_def)

lemma to_Direction_pi_half: "to_Direction (pi / 2) = 0"
  using to_Direction_low[of "pi / 2"] pi_gt_zero by simp

lemma sector_hit_level: "sector_hit left_paddle level_ball = 1 / 2"
  by (simp add: sector_hit_def left_paddle_def level_ball_def table_ball_def clamp_std_def)

lemma sector_hit_slant: "sector_hit left_paddle slant_ball = 667 / 134"
  by (simp add: sector_hit_def left_paddle_def slant_ball_def table_ball_def clamp_std_def)

lemma return_level:
  "return_ball left_paddle level_ball (168, 450) 1 (3 / 80) =
     level_ball\<lparr> m_angle := pi / 2, m_direction := MovesToRight, m_speed := 21,
                  m_shape := (189, 450) \<rparr>"
proof -
  have z: "of_bool (MovesToRight = m_direction level_ball) * pi = (0::real)"
    by (simp add: level_ball_def table_ball_def MovesToRight_def MovesToLeft_def)
  have sd: "m_side left_paddle = Left_side" by (simp add: left_paddle_def)
  have a: "pi / 2 + 0 + 0.075 * (- (1 / 2)) + 3 / 80 = pi / 2" by simp
  show ?thesis
    unfolding return_ball_def Let_def z sd sector_hit_level
    apply (simp only: Side.simps if_False a pi_half_clamped)
    apply (simp add: to_Direction_pi_half MovesToRight_def vadd_def vscale_def)
    apply (simp add: level_ball_def table_ball_def)
    done
qed

lemma Paddle_update_level_ball:
  "Paddle_update left_paddle level_ball (m_shape level_ball) (155, 450) (3 / 80) =
     (True, left_paddle,
      Placed (level_ball\<lparr> m_angle := pi / 2, m_direction := MovesToRight, m_speed := 21,
                         m_shape := (189, 450) \<rparr>))"
proof -
  have h1: "\<not> cheaply_rejected left_paddle level_ball (m_shape level_ball)
                (fst (155::real, 450::real) + fst (m_paddle_detector_offset left_paddle))"
    unfolding left_paddle_zone
    by (simp add: cheaply_rejected_def left_paddle_def level_ball_def table_ball_def
          MovesToRight_def MovesToLeft_def)
  have h2: "not_equal_f 0 (fst (m_shape level_ball) - fst (m_previous_position level_ball))"
    by (simp add: not_equal_f_def FLT_EPSILON_def level_ball_def table_ball_def)
  have y: "(snd (m_shape level_ball) - snd (m_previous_position level_ball)) /
           (fst (m_shape level_ball) - fst (m_previous_position level_ball)) *
           (fst (168::real, 409::real) - fst (m_shape level_ball)) + snd (m_shape level_ball) = 450"
    by (simp add: level_ball_def table_ball_def)
  show ?thesis
    unfolding Paddle_update_slanted[OF h1 h2] Let_def left_paddle_zone y
    by (simp add: return_level)
qed

text \<open>
  Claim C2 describes a new position that is the intersection point advanced by the
  speed times the unconsumed fraction of the travel segment. In the non-vertical
  branch the ratio passed to \<open>return_ball\<close> is the horizontal delta divided by itself,
  which is 1: \<open>level_ball\<close> crosses the detector half way along its segment, so the
  fraction is 1/2 and the position would be \<open>(178.5, 450)\<close>, but the call puts the
  ball at \<open>(189, 450)\<close>, the intersection advanced by the full speed 21.
\<close>

theorem slanted_hit_ignores_crossing_point:
  "Paddle_update left_paddle level_ball (m_shape level_ball) (155, 450) (3 / 80) =
     (True, left_paddle,
      Placed (level_ball\<lparr> m_angle := pi / 2, m_direction := MovesToRight, m_speed := 21,
                         m_shape := (189, 450) \<rparr>)) \<and>
   spec_unconsumed_fraction (m_previous_position level_ball) (m_shape level_ball) 168 = 1 / 2 \<and>
   vadd (168, 450)
        (vscale (21 * spec_unconsumed_fraction (m_previous_position level_ball)
                        (m_shape level_ball) 168)
                (sin (pi / 2), cos (pi / 2))) = (178.5, 450)"
proof -
  have f: "spec_unconsumed_fraction (m_previous_position level_ball) (m_shape level_ball) 168 = 1 / 2"
    by (simp add: spec_unconsumed_fraction_def level_ball_def table_ball_def)
  have v: "vadd (168, 450)
             (vscale (21 * spec_unconsumed_fraction (m_previous_position level_ball)
                             (m_shape level_ball) 168)
                     (sin (pi / 2), cos (pi / 2))) = (178.5, 450)"
    unfolding f by (simp add: vadd_def vscale_def)
  show ?thesis using Paddle_update_level_ball f v by blast
qed

lemma return_slant:
  "return_ball left_paddle slant_ball (168, 450) 1 (2001 / 5360) =
     slant_ball\<lparr> m_angle := pi / 2, m_direction := MovesToRight, m_speed := 20 * sqrt 5 + 1,
                  m_shape := (169 + 20 * sqrt 5, 450) \<rparr>"
proof -
  have z: "of_bool (MovesToRight = m_direction slant_ball) * pi = (0::real)"
    by (simp add: slant_ball_def table_ball_def MovesToRight_def MovesToLeft_def)
  have sd: "m_side left_paddle = Left_side" by (simp add: left_paddle_def)
  have a: "pi / 2 + 0 + 0.075 * (- (667 / 134)) + 2001 / 5360 = pi / 2" by simp
  show ?thesis
    unfolding return_ball_def Let_def z sd sector_hit_slant
    apply (simp only: Side.simps if_False a pi_half_clamped)
    apply (simp add: to_Direction_pi_half MovesToRight_def vadd_def vscale_def)
    apply (simp add: slant_ball_def table_ball_def)
    done
qed

lemma Paddle_update_slant_ball:
  "Paddle_update left_paddle slant_ball (m_shape slant_ball) (155, 450) (2001 / 5360) =
     (True, left_paddle,
      Placed (slant_ball\<lparr> m_angle := pi / 2, m_direction := MovesToRight,
                         m_speed := 20 * sqrt 5 + 1, m_shape := (169 + 20 * sqrt 5, 450) \<rparr>))"
proof -
  have h1: "\<not> cheaply_rejected left_paddle slant_ball (m_shape slant_ball)
                (fst (155::real, 450::real) + fst (m_paddle_detector_offset left_paddle))"
    unfolding left_paddle_zone
    by (simp add: cheaply_rejected_def left_paddle_def slant_ball_def table_ball_def
          MovesToRight_def MovesToLeft_def)
  have h2: "not_equal_f 0 (fst (m_shape slant_ball) - fst (m_previous_position slant_ball))"
    by (simp add: not_equal_f_def FLT_EPSILON_def slant_ball_def table_ball_def)
  have y: "(snd (m_shape slant_ball) - snd (m_previous_position slant_ball)) /
           (fst (m_shape slant_ball) - fst (m_previous_position slant_ball)) *
           (fst (168::real, 409::real) - fst (m_shape slant_ball)) + snd (m_shape slant_ball) = 450"
    by (simp add: slant_ball_def table_ball_def)
  show ?thesis
    unfolding Paddle_update_slanted[OF h1 h2] Let_def left_paddle_zone y
    by (simp add: return_slant)
qed

lemma sector_hit_floor:
  assumes "0 < m_paddle_sectors p" and "m_paddle_sectors p < 2 ^ 32"
  shows "\<lfloor>sector_hit p b\<rfloor> =
           \<lfloor>clamp_std ((snd (m_shape b) - (snd (m_shape_position p) - snd (m_shape_origin p)))
                          / m_paddle_length p) 0 0.999
              * real_of_int (m_paddle_sectors p)\<rfloor>
           - m_paddle_sectors p div 2"
proof -
  have m: "m_paddle_sectors p mod 2 ^ 32 = m_paddle_sectors p"
    using assms by simp
  show ?thesis
    unfolding sector_hit_def m by (rule floor_diff_of_int)
qed

lemma scaled_position_floor_range:
  fixes n :: int
  assumes "0 < n"
  shows "0 \<le> \<lfloor>clamp_std v 0 0.999 * real_of_int n\<rfloor> \<and>
         \<lfloor>clamp_std v 0 0.999 * real_of_int n\<rfloor> \<le> n - 1"
proof -
  let ?c = "clamp_std v 0 0.999"
  have c: "0 \<le> ?c" "?c \<le> 0.999"
    using clamp_std_range[of 0 "0.999" v] by simp_all
  have n: "0 < real_of_int n" using assms by simp
  have lo: "0 \<le> ?c * real_of_int n" using c(1) n by simp
  have "?c * real_of_int n \<le> 0.999 * real_of_int n"
    using c(2) n by (simp only: mult_le_cancel_right_pos)
  also have "\<dots> < real_of_int n" using n by simp
  finally have hi: "?c * real_of_int n < real_of_int n" .
  have "\<lfloor>?c * real_of_int n\<rfloor> < n" using hi by (simp add: floor_less_iff)
  moreover have "0 \<le> \<lfloor>?c * real_of_int n\<rfloor>" using lo by simp
  ultimately show ?thesis by simp
qed

text \<open>
  Claim C6, as amended. On every hit (every call that returns true, also one that
  leaves the ball without a real position), the angle is the clamped sum of the base
  angle, 0.075 times the signed sector value and the noise. The sector value is
  computed from the height of the ball itself (the position of its shape when the call
  is made), not from the intersection: that height relative to the top of the paddle,
  divided by the paddle length, is clamped to \<open>[0, 0.999]\<close> and scaled by the sector
  count, and the integer part of the sector value is the integer part of this scaled
  position minus the integer half of the sector count; it is one of the sector count
  many integers from minus that half on. The sector count is a positive 32-bit integer
  and the paddle length is positive.
\<close>

theorem sector_from_ball_height:
  assumes "fst (Paddle_update p ball bp pp noise) = True"
      and "0 < m_paddle_sectors p" and "m_paddle_sectors p < 2 ^ 32"
      and "0 < m_paddle_length p"
  shows "m_angle (the_ball (snd (snd (Paddle_update p ball bp pp noise)))) =
           clamp_std
             (pi / 2 + of_bool (MovesToRight = m_direction ball) * pi
               + 0.075 *
                   (if Right_side = m_side p then 1 else - 1) *
                   sector_hit (p\<lparr> m_shape_position := pp \<rparr>) ball
               + noise)
             (of_bool (MovesToRight = m_direction ball) * pi + 0.01 * pi)
             (pi + of_bool (MovesToRight = m_direction ball) * pi - 0.01 * pi) \<and>
         \<lfloor>sector_hit (p\<lparr> m_shape_position := pp \<rparr>) ball\<rfloor> =
           \<lfloor>clamp_std ((snd (m_shape ball) - (snd pp - snd (m_shape_origin p)))
                          / m_paddle_length p) 0 0.999
              * real_of_int (m_paddle_sectors p)\<rfloor>
           - m_paddle_sectors p div 2 \<and>
         - (m_paddle_sectors p div 2) \<le> \<lfloor>sector_hit (p\<lparr> m_shape_position := pp \<rparr>) ball\<rfloor> \<and>
         \<lfloor>sector_hit (p\<lparr> m_shape_position := pp \<rparr>) ball\<rfloor>
           \<le> m_paddle_sectors p - 1 - m_paddle_sectors p div 2"
proof -
  let ?p = "p\<lparr> m_shape_position := pp \<rparr>"
  have a: "m_angle (the_ball (snd (snd (Paddle_update p ball bp pp noise)))) =
     clamp_std (pi / 2 + of_bool (MovesToRight = m_direction ball) * pi
                 + 0.075 * (if Right_side = m_side ?p then sector_hit ?p ball else - sector_hit ?p ball) + noise)
       (of_bool (MovesToRight = m_direction ball) * pi + 0.01 * pi)
       (pi + of_bool (MovesToRight = m_direction ball) * pi - 0.01 * pi)"
    using assms(1)
    by (auto simp: Paddle_update_def Let_def return_ball_angle return_ball_unplaced_angle
             split: if_splits option.splits)
  have s: "0 < m_paddle_sectors ?p" "m_paddle_sectors ?p < 2 ^ 32"
    using assms(2,3) by simp_all
  have f: "\<lfloor>sector_hit ?p ball\<rfloor> =
           \<lfloor>clamp_std ((snd (m_shape ball) - (snd pp - snd (m_shape_origin p)))
                          / m_paddle_length p) 0 0.999
              * real_of_int (m_paddle_sectors p)\<rfloor>
           - m_paddle_sectors p div 2"
    using sector_hit_floor[OF s, of ball] by simp
  note r = scaled_position_floor_range[OF assms(2),
             of "(snd (m_shape ball) - (snd pp - snd (m_shape_origin p))) / m_paddle_length p"]
  have a': "m_angle (the_ball (snd (snd (Paddle_update p ball bp pp noise)))) =
           clamp_std
             (pi / 2 + of_bool (MovesToRight = m_direction ball) * pi
               + 0.075 *
                   (if Right_side = m_side p then 1 else - 1) *
                   sector_hit ?p ball
               + noise)
             (of_bool (MovesToRight = m_direction ball) * pi + 0.01 * pi)
             (pi + of_bool (MovesToRight = m_direction ball) * pi - 0.01 * pi)"
    unfolding a by simp
  show ?thesis using a' f r by linarith
qed

lemma sector_hit_colinear: "sector_hit left_paddle colinear_ball = - 233 / 134"
  by (simp add: sector_hit_def left_paddle_def colinear_ball_def table_ball_def clamp_std_def)

lemma Paddle_update_colinear_ball:
  "Paddle_update left_paddle colinear_ball (m_shape colinear_ball) (155, 450) 0
     = (True, left_paddle, Unplaced (return_ball_unplaced left_paddle colinear_ball 0))"
proof -
  have h1: "\<not> cheaply_rejected left_paddle colinear_ball (m_shape colinear_ball)
                (fst (155::real, 450::real) + fst (m_paddle_detector_offset left_paddle))"
    unfolding left_paddle_zone
    by (simp add: cheaply_rejected_def left_paddle_def colinear_ball_def table_ball_def
          MovesToRight_def MovesToLeft_def)
  have h2: "\<not> not_equal_f 0 (fst (m_shape colinear_ball) - fst (m_previous_position colinear_ball))"
    by (simp add: not_equal_f_def FLT_EPSILON_def colinear_ball_def table_ball_def)
  show ?thesis
    unfolding Paddle_update_vertical[OF h1 h2] Let_def left_paddle_zone
    by (simp add: fdiv_def colinear_ball_def table_ball_def)
qed

text \<open>
  The frame of \<open>colinear_ball\<close>, a hit that leaves the ball without a real position:
  the ball ends at height 440, the value is -233/134, in sector -2, and the angle is
  \<open>pi / 2 + 0.075 * 233 / 134\<close>.
\<close>

theorem sector_from_ball_height_witness:
  "Paddle_update left_paddle colinear_ball (m_shape colinear_ball) (155, 450) 0
     = (True, left_paddle, Unplaced (return_ball_unplaced left_paddle colinear_ball 0)) \<and>
   m_paddle_sectors left_paddle = 15 \<and>
   snd (m_shape colinear_ball) = 440 \<and>
   \<lfloor>sector_hit left_paddle colinear_ball\<rfloor> = - 2 \<and>
   m_angle (return_ball_unplaced left_paddle colinear_ball 0) = pi / 2 + 699 / 5360"
proof -
  have h1: "fst (Paddle_update left_paddle colinear_ball (m_shape colinear_ball) (155, 450) 0) = True"
    by (simp add: Paddle_update_colinear_ball)
  have h2: "0 < m_paddle_sectors left_paddle" and h3: "m_paddle_sectors left_paddle < 2 ^ 32"
    and h4: "0 < m_paddle_length left_paddle"
    by (simp_all add: left_paddle_def)
  note t = sector_from_ball_height[OF h1 h2 h3 h4]
  have z: "of_bool (MovesToRight = m_direction colinear_ball) * pi = (0::real)"
    by (simp add: colinear_ball_def table_ball_def MovesToRight_def MovesToLeft_def)
  have f: "m_side left_paddle = Left_side" "m_paddle_sectors left_paddle = 15"
    "snd (m_shape colinear_ball) = 440"
    by (simp_all add: left_paddle_def colinear_ball_def table_ball_def)
  have c: "clamp_std (pi / 2 + 699 / 5360) (0.01 * pi) (pi - 0.01 * pi) = pi / 2 + 699 / 5360"
    unfolding clamp_std_def using pi_ge_two by auto
  have ang: "m_angle (return_ball_unplaced left_paddle colinear_ball 0) = pi / 2 + 699 / 5360"
    using conjunct1[OF t] c
    unfolding Paddle_update_colinear_ball left_paddle_zone z f sector_hit_colinear
    by simp
  have fl: "\<lfloor>sector_hit left_paddle colinear_ball\<rfloor> = - 2"
    unfolding sector_hit_colinear by (simp add: floor_eq_iff)
  show ?thesis using Paddle_update_colinear_ball f ang fl by blast
qed

text \<open>
  Claim C6 as stated fails: \<open>slant_ball\<close> crosses the detector at height 450, the
  centre of the paddle, for which the claim gives sector zero, and ends at height 470.
  The sector value of the response is 667/134, in sector 4, that of height 470: with
  the noise 2001/5360 it gives the angle \<open>pi / 2\<close> of the returned ball, and sector
  zero would not.
\<close>

theorem sector_reads_ball_height:
  "Paddle_update left_paddle slant_ball (m_shape slant_ball) (155, 450) (2001 / 5360) =
     (True, left_paddle,
      Placed (slant_ball\<lparr> m_angle := pi / 2, m_direction := MovesToRight,
                         m_speed := 20 * sqrt 5 + 1, m_shape := (169 + 20 * sqrt 5, 450) \<rparr>)) \<and>
   snd (m_shape slant_ball) = 470 \<and>
   sector_hit left_paddle slant_ball = 667 / 134 \<and>
   \<lfloor>sector_hit left_paddle slant_ball\<rfloor> = 4 \<and>
   spec_sector left_paddle 450 = 0 \<and>
   sector_hit left_paddle slant_ball \<noteq> spec_sector left_paddle 450 \<and>
   pi / 2 + 0.075 * (- sector_hit left_paddle slant_ball) + 2001 / 5360 = pi / 2 \<and>
   pi / 2 + 0.075 * (- spec_sector left_paddle 450) + 2001 / 5360 \<noteq> pi / 2"
proof -
  have sp: "spec_sector left_paddle 450 = 0"
    by (simp add: spec_sector_def left_paddle_def clamp_std_def)
  have y: "snd (m_shape slant_ball) = 470" by (simp add: slant_ball_def table_ball_def)
  have fl: "\<lfloor>sector_hit left_paddle slant_ball\<rfloor> = 4"
    unfolding sector_hit_slant by (simp add: floor_eq_iff)
  show ?thesis using Paddle_update_slant_ball sector_hit_slant sp y fl by simp
qed

subsection \<open>The computer paddle\<close>

lemma update_computer_moving:
  assumes "\<not> 0 < m_paddle_pause p"
  shows "m_shape_position (fst (snd (update_computer refresh makeOdd u noise p ball))) =
     (let y0 = snd (m_shape_position p);
          by = snd (m_shape ball);
          jitter = 9 * UniDisf (- 7 / 15) (7 / 15) u
      in if is_y_in_paddle p y0 by then m_shape_position p
         else if reference_y p ball < y0
         then (let c = makeOdd (y0 - 9 + jitter) False
               in if c > m_min_y p \<and> by < c then (fst (m_shape_position p), c)
                  else m_shape_position p)
         else (let c = makeOdd (y0 + 9 + jitter) True
               in if c < m_max_y p \<and> by > c then (fst (m_shape_position p), c)
                  else m_shape_position p))"
proof -
  have pu: "\<And>q b bp pp n. m_shape_position (fst (snd (Paddle_update q b bp pp n))) = pp"
    by (simp add: Paddle_update_def Let_def)
  show ?thesis
    using assms
    by (simp add: update_computer_def Let_def pu is_y_in_paddle_def reference_y_def)
qed

text \<open>
  Claim C5, as amended. In a frame in which the computer paddle is not paused and
  the ball is outside its catch window, the candidate position is accepted exactly
  when it is strictly inside the travel bound on the side the paddle moves toward
  (greater than \<open>m_min_y\<close> when it moves to smaller heights, less than \<open>m_max_y\<close> when
  it moves to larger ones) and the height of the ball is strictly beyond the candidate
  in that direction; otherwise the paddle keeps its position. The reference height (the ball's height or the middle of the
  travel range) decides the direction only.
\<close>

theorem computer_paddle_acceptance:
  assumes "\<not> 0 < m_paddle_pause p"
      and "\<not> is_y_in_paddle p (snd (m_shape_position p)) (snd (m_shape ball))"
  shows "m_shape_position (fst (snd (update_computer refresh makeOdd u noise p ball))) =
     (if reference_y p ball < snd (m_shape_position p)
      then (if makeOdd (snd (m_shape_position p) - 9 + 9 * UniDisf (- 7 / 15) (7 / 15) u) False
                 > m_min_y p \<and>
               snd (m_shape ball)
                 < makeOdd (snd (m_shape_position p) - 9 + 9 * UniDisf (- 7 / 15) (7 / 15) u) False
            then (fst (m_shape_position p),
                  makeOdd (snd (m_shape_position p) - 9 + 9 * UniDisf (- 7 / 15) (7 / 15) u) False)
            else m_shape_position p)
      else (if makeOdd (snd (m_shape_position p) + 9 + 9 * UniDisf (- 7 / 15) (7 / 15) u) True
                 < m_max_y p \<and>
               snd (m_shape ball)
                 > makeOdd (snd (m_shape_position p) + 9 + 9 * UniDisf (- 7 / 15) (7 / 15) u) True
            then (fst (m_shape_position p),
                  makeOdd (snd (m_shape_position p) + 9 + 9 * UniDisf (- 7 / 15) (7 / 15) u) True)
            else m_shape_position p))"
  unfolding update_computer_moving[OF assms(1)] using assms(2) by (simp add: Let_def)

lemma low_paddle_candidate:
  "makeOdd_round (snd (m_shape_position low_paddle) - 9 + 9 * UniDisf (- 7 / 15) (7 / 15) (1 / 2)) False = 591"
  by (simp add: low_paddle_def left_paddle_def UniDisf_def makeOdd_round_def)

lemma low_paddle_facts:
  "\<not> 0 < m_paddle_pause low_paddle"
  "\<not> is_y_in_paddle low_paddle (snd (m_shape_position low_paddle)) (snd (m_shape departing_ball))"
  "reference_y low_paddle departing_ball = 445"
  "snd (m_shape_position low_paddle) = 600"
  "m_min_y low_paddle = 147.5" "m_max_y low_paddle = 742.5"
  "snd (m_shape departing_ball) = 700"
  by (simp_all add: low_paddle_def left_paddle_def departing_ball_def table_ball_def
        is_y_in_paddle_def reference_y_def MovesToLeft_def MovesToRight_def)

theorem computer_paddle_acceptance_witness:
  "\<not> 0 < m_paddle_pause low_paddle \<and>
   \<not> is_y_in_paddle low_paddle (snd (m_shape_position low_paddle)) (snd (m_shape approaching_ball)) \<and>
   reference_y low_paddle approaching_ball = 400 \<and>
   m_shape_position
     (fst (snd (update_computer 60 makeOdd_round (1 / 2) 0 low_paddle approaching_ball)))
     = (155, 591)"
proof -
  have h1: "\<not> 0 < m_paddle_pause low_paddle"
    by (simp add: low_paddle_def left_paddle_def)
  have h2: "\<not> is_y_in_paddle low_paddle (snd (m_shape_position low_paddle))
                (snd (m_shape approaching_ball))"
    by (simp add: is_y_in_paddle_def low_paddle_def left_paddle_def approaching_ball_def
          table_ball_def)
  have r: "reference_y low_paddle approaching_ball = 400"
    by (simp add: reference_y_def low_paddle_def left_paddle_def approaching_ball_def
          table_ball_def)
  have f: "snd (m_shape_position low_paddle) = 600" "fst (m_shape_position low_paddle) = 155"
    "m_min_y low_paddle = 147.5" "snd (m_shape approaching_ball) = 400"
    by (simp_all add: low_paddle_def left_paddle_def approaching_ball_def table_ball_def)
  note t = computer_paddle_acceptance[OF h1 h2, of 60 makeOdd_round "1 / 2" 0]
  have "m_shape_position
     (fst (snd (update_computer 60 makeOdd_round (1 / 2) 0 low_paddle approaching_ball)))
     = (155, 591)"
    using t low_paddle_candidate unfolding r f by simp
  then show ?thesis using h1 h2 r by blast
qed

text \<open>
  Claim C5 as stated fails when the ball departs: for \<open>low_paddle\<close> and
  \<open>departing_ball\<close> the reference is the middle of the range, 445, the candidate 591
  is inside the travel bounds and has not passed the reference, and the paddle stays
  at 600, because the ball's height 700 is not above the candidate.
\<close>

theorem computer_paddle_rejects_before_reference:
  "\<not> 0 < m_paddle_pause low_paddle \<and>
   \<not> is_y_in_paddle low_paddle (snd (m_shape_position low_paddle)) (snd (m_shape departing_ball)) \<and>
   reference_y low_paddle departing_ball = 445 \<and>
   makeOdd_round (snd (m_shape_position low_paddle) - 9 + 9 * UniDisf (- 7 / 15) (7 / 15) (1 / 2)) False = 591 \<and>
   m_min_y low_paddle \<le> 591 \<and> 591 \<le> m_max_y low_paddle \<and>
   reference_y low_paddle departing_ball \<le> 591 \<and>
   m_shape_position (fst (snd (update_computer 60 makeOdd_round (1 / 2) 0 low_paddle departing_ball)))
     = (155, 600)"
proof -
  have "m_shape_position (fst (snd (update_computer 60 makeOdd_round (1 / 2) 0 low_paddle departing_ball)))
     = (155, 600)"
    unfolding update_computer_moving[OF low_paddle_facts(1)] Let_def
    using low_paddle_facts low_paddle_candidate
    by (simp add: low_paddle_def left_paddle_def)
  then show ?thesis using low_paddle_facts low_paddle_candidate by simp
qed

end
